theory Spec2Isabelle
  imports Complex_Main "HOL-Library.Multiset"
begin

section \<open>The relational engine, as far as etl.py uses it\<close>

text \<open>
  etl.py is a sequence of SQL queries over tables. A table is a list of rows (a bag:
  the order carries no meaning, duplicates do), a row is a record, and every column is
  nullable: a column of type \<open>'a\<close> holds an \<open>'a option\<close>, with \<open>None\<close> for NULL.

  A condition of a WHERE or ON clause keeps a row only when it evaluates to TRUE, so a
  condition is modelled by the boolean "evaluates to TRUE": a comparison with a NULL
  operand is then \<open>False\<close>, and AND, and OR of such booleans are the HOL connectives.
  DOUBLE columns are modelled by exact reals.
\<close>

definition sql_eq :: "'a option \<Rightarrow> 'a option \<Rightarrow> bool" where
  "sql_eq a b = (case a of None \<Rightarrow> False | Some x \<Rightarrow> (case b of None \<Rightarrow> False | Some y \<Rightarrow> x = y))"

definition sql_ge :: "('a::linorder) option \<Rightarrow> 'a option \<Rightarrow> bool" where
  "sql_ge a b = (case a of None \<Rightarrow> False | Some x \<Rightarrow> (case b of None \<Rightarrow> False | Some y \<Rightarrow> y \<le> x))"

definition sql_lt :: "('a::linorder) option \<Rightarrow> 'a option \<Rightarrow> bool" where
  "sql_lt a b = (case a of None \<Rightarrow> False | Some x \<Rightarrow> (case b of None \<Rightarrow> False | Some y \<Rightarrow> x < y))"

definition IS_NULL :: "'a option \<Rightarrow> bool" where
  "IS_NULL a = (a = None)"

definition IS_NOT_NULL :: "'a option \<Rightarrow> bool" where
  "IS_NOT_NULL a = (a \<noteq> None)"

text \<open>
  \<open>A LEFT JOIN B ON c\<close>: every row of A with each row of B that satisfies \<open>c\<close>, and
  with no row of B (\<open>None\<close>, all of B's columns NULL) when none does.
  \<open>left_matches\<close> is the right-hand side one row of A meets.
\<close>

definition left_matches :: "('b \<Rightarrow> bool) \<Rightarrow> 'b list \<Rightarrow> 'b option list" where
  "left_matches c B = (case filter c B of [] \<Rightarrow> [None] | m # ms \<Rightarrow> map Some (m # ms))"

definition left_join :: "('a \<Rightarrow> 'b \<Rightarrow> bool) \<Rightarrow> 'a list \<Rightarrow> 'b list \<Rightarrow> ('a \<times> 'b option) list" where
  "left_join c A B = concat (map (\<lambda>a. map (\<lambda>b. (a, b)) (left_matches (c a) B)) A)"

text \<open>\<open>A JOIN B ON c\<close> (inner).\<close>

definition inner_join :: "('a \<Rightarrow> 'b \<Rightarrow> bool) \<Rightarrow> 'a list \<Rightarrow> 'b list \<Rightarrow> ('a \<times> 'b) list" where
  "inner_join c A B = concat (map (\<lambda>a. map (\<lambda>b. (a, b)) (filter (c a) B)) A)"

text \<open>A column of the nullable side of a left join.\<close>

definition col :: "('b \<Rightarrow> 'c option) \<Rightarrow> 'b option \<Rightarrow> 'c option" where
  "col f b = (case b of None \<Rightarrow> None | Some r \<Rightarrow> f r)"

text \<open>
  \<open>GROUP BY key\<close> with one aggregate: one row per distinct key, the aggregate taken
  over the rows of the key's group.
\<close>

definition group_by :: "('a \<Rightarrow> 'k) \<Rightarrow> ('a list \<Rightarrow> 'v) \<Rightarrow> 'a list \<Rightarrow> ('k \<times> 'v) list" where
  "group_by key agg rows = map (\<lambda>k. (k, agg (filter (\<lambda>r. key r = k) rows))) (remdups (map key rows))"

text \<open>Arithmetic on nullable numbers: NULL when an operand is NULL.\<close>

definition sql_op :: "('a \<Rightarrow> 'a \<Rightarrow> 'a) \<Rightarrow> 'a option \<Rightarrow> 'a option \<Rightarrow> 'a option" where
  "sql_op f a b = (case a of None \<Rightarrow> None | Some x \<Rightarrow> (case b of None \<Rightarrow> None | Some y \<Rightarrow> Some (f x y)))"

definition SQRT :: "real option \<Rightarrow> real option" where
  "SQRT x = map_option sqrt x"

text \<open>\<open>AVG\<close> over the rows of a group: the mean of the non-NULL values, NULL when there is none.\<close>

definition AVG :: "real option list \<Rightarrow> real option" where
  "AVG vs = (let xs = concat (map (\<lambda>v. case v of None \<Rightarrow> [] | Some x \<Rightarrow> [x]) vs)
             in if xs = [] then None else Some (sum_list xs / real (length xs)))"




subsection \<open>Dates\<close>

text \<open>
  A DATE is a number of days since 1970-01-01 in the proleptic Gregorian calendar, as the
  engine stores it; \<open>date_add\<close> adds days, and the calendar parts are computed from the day
  number.
\<close>

type_synonym date = int

definition days_from_civil :: "int \<Rightarrow> int \<Rightarrow> int \<Rightarrow> date" where
  "days_from_civil y m d =
     (let y' = (if m \<le> 2 then y - 1 else y);
          era = y' div 400;
          yoe = y' - era * 400;
          doy = (153 * (if 2 < m then m - 3 else m + 9) + 2) div 5 + d - 1;
          doe = yoe * 365 + yoe div 4 - yoe div 100 + doy
      in era * 146097 + doe - 719468)"

definition civil_from_days :: "date \<Rightarrow> int \<times> int \<times> int" where
  "civil_from_days z0 =
     (let z = z0 + 719468;
          era = z div 146097;
          doe = z - era * 146097;
          yoe = (doe - doe div 1460 + doe div 36524 - doe div 146096) div 365;
          doy = doe - (365 * yoe + yoe div 4 - yoe div 100);
          mp = (5 * doy + 2) div 153;
          d = doy - (153 * mp + 2) div 5 + 1;
          m = (if mp < 10 then mp + 3 else mp - 9);
          y = yoe + era * 400 + (if m \<le> 2 then 1 else 0)
      in (y, m, d))"



definition YEAR :: "date option \<Rightarrow> int option" where
  "YEAR d = map_option (\<lambda>z. fst (civil_from_days z)) d"

definition MONTH :: "date option \<Rightarrow> int option" where
  "MONTH d = map_option (\<lambda>z. fst (snd (civil_from_days z))) d"

definition DAY :: "date option \<Rightarrow> int option" where
  "DAY d = map_option (\<lambda>z. snd (snd (civil_from_days z))) d"

text \<open>\<open>DAYOFWEEK\<close>: 1 is Sunday, 7 is Saturday (1970-01-01 was a Thursday).\<close>

definition DAYOFWEEK :: "date option \<Rightarrow> int option" where
  "DAYOFWEEK d = map_option (\<lambda>z. (z + 4) mod 7 + 1) d"

text \<open>
  \<open>WEEKOFYEAR\<close>: the ISO 8601 week, the week of the year that holds the Thursday of the
  date's Monday-to-Sunday week.
\<close>

definition iso_week :: "date \<Rightarrow> int" where
  "iso_week z =
     (let wd = (z + 3) mod 7 + 1;
          th = z + 4 - wd;
          jan1 = days_from_civil (fst (civil_from_days th)) 1 1
      in (th - jan1) div 7 + 1)"

definition WEEKOFYEAR :: "date option \<Rightarrow> int option" where
  "WEEKOFYEAR d = map_option iso_week d"

section \<open>load_source_data: the conformed travel events\<close>







record i94_row =
  i_id :: "int option"
  i_country_of_residence :: "string option"
  i_country_of_citizenship :: "string option"
  i_city_of_entry :: "string option"
  i_state_of_entry_code :: "string option"
  i_state_of_entry_full :: "string option"
  i_border_cross_method :: "string option"
  i_type_of_visa :: "string option"
  i_class_of_admission :: "string option"
  i_gender :: "string option"
  i_age :: "int option"
  i_arr_date :: "date option"
  i_dep_date :: "date option"
  i_year :: "int option"
  i_month :: "int option"
  i_day :: "int option"




section \<open>process_source_data\<close>

subsection \<open>Travel events (lines 208 to 214)\<close>

definition i94_keep :: "i94_row \<Rightarrow> bool" where
  "i94_keep i \<longleftrightarrow>
     IS_NOT_NULL (i_id i) \<and> IS_NOT_NULL (i_state_of_entry_code i) \<and>
     IS_NOT_NULL (i_city_of_entry i) \<and> IS_NOT_NULL (i_arr_date i) \<and>
     (IS_NULL (i_dep_date i) \<or> sql_ge (i_dep_date i) (i_arr_date i))"

definition i94_clean :: "i94_row list \<Rightarrow> i94_row list" where
  "i94_clean i94_source_table = remdups (filter i94_keep i94_source_table)"

subsection \<open>Demographics: null filter and pivot (lines 226 to 272)\<close>

record cities_pop_source_row =
  c_city :: "string option"
  c_state :: "string option"
  c_median_age :: "real option"
  c_male_population :: "int option"
  c_female_population :: "int option"
  c_total_population :: "int option"
  c_number_of_veterans :: "int option"
  c_foreign_born :: "int option"
  c_avg_household_size :: "real option"
  c_state_code :: "string option"
  c_race :: "string option"
  c_count :: "int option"

record cities_pop_row =
  p_city :: "string option"
  p_state :: "string option"
  p_state_code :: "string option"
  p_median_age :: "real option"
  p_male_population :: "int option"
  p_female_population :: "int option"
  p_total_population :: "int option"
  p_number_of_veterans :: "int option"
  p_foreign_born :: "int option"
  p_avg_household_size :: "real option"
  p_american_indian_and_alaska_native :: "int option"
  p_asian :: "int option"
  p_white :: "int option"
  p_hispanic_or_latino :: "int option"
  p_black_or_african_american :: "int option"

text \<open>Step 1: the null filter on city and state_code.\<close>

definition cities_pop_nonnull :: "cities_pop_source_row list \<Rightarrow> cities_pop_source_row list" where
  "cities_pop_nonnull cities_pop_source_table =
     filter (\<lambda>c. IS_NOT_NULL (c_city c) \<and> IS_NOT_NULL (c_state_code c)) cities_pop_source_table"

text \<open>
  One of the five subqueries \<open>SELECT city, state, count FROM cities_pop_source_table
  WHERE race = label\<close>; its rows are (city, state, count).
\<close>

definition race_counts ::
  "string \<Rightarrow> cities_pop_source_row list \<Rightarrow> (string option \<times> string option \<times> int option) list" where
  "race_counts label T =
     map (\<lambda>c. (c_city c, c_state c, c_count c)) (filter (\<lambda>c. sql_eq (c_race c) (Some label)) T)"

text \<open>The ON clause of each of the five left joins: \<open>c.city = cK.city AND c.state = cK.state\<close>.\<close>

definition pivot_on :: "cities_pop_source_row \<Rightarrow> (string option \<times> string option \<times> int option) \<Rightarrow> bool" where
  "pivot_on c ck \<longleftrightarrow> sql_eq (c_city c) (fst ck) \<and> sql_eq (c_state c) (fst (snd ck))"

definition pivot_select ::
  "cities_pop_source_row \<Rightarrow> (string option \<times> string option \<times> int option) option
     \<Rightarrow> (string option \<times> string option \<times> int option) option
     \<Rightarrow> (string option \<times> string option \<times> int option) option
     \<Rightarrow> (string option \<times> string option \<times> int option) option
     \<Rightarrow> (string option \<times> string option \<times> int option) option \<Rightarrow> cities_pop_row" where
  "pivot_select c c1 c2 c3 c4 c5 =
     \<lparr> p_city = c_city c, p_state = c_state c, p_state_code = c_state_code c,
       p_median_age = c_median_age c,
       p_male_population = c_male_population c, p_female_population = c_female_population c,
       p_total_population = c_total_population c, p_number_of_veterans = c_number_of_veterans c,
       p_foreign_born = c_foreign_born c, p_avg_household_size = c_avg_household_size c,
       p_american_indian_and_alaska_native = col (\<lambda>r. snd (snd r)) c1,
       p_asian = col (\<lambda>r. snd (snd r)) c2,
       p_white = col (\<lambda>r. snd (snd r)) c3,
       p_hispanic_or_latino = col (\<lambda>r. snd (snd r)) c4,
       p_black_or_african_american = col (\<lambda>r. snd (snd r)) c5 \<rparr>"

text \<open>
  Steps 2 and 3: the five left joins (each ON clause mentions only \<open>c\<close> and its own
  subquery, so the rows one \<open>c\<close> yields are the combinations of its matches in the five
  subqueries) and SELECT DISTINCT.
\<close>

definition cities_pop_pivot :: "cities_pop_source_row list \<Rightarrow> cities_pop_row list" where
  "cities_pop_pivot T =
     remdups
       [ pivot_select c c1 c2 c3 c4 c5.
           c \<leftarrow> T,
           c1 \<leftarrow> left_matches (pivot_on c) (race_counts ''American Indian and Alaska Native'' T),
           c2 \<leftarrow> left_matches (pivot_on c) (race_counts ''Asian'' T),
           c3 \<leftarrow> left_matches (pivot_on c) (race_counts ''White'' T),
           c4 \<leftarrow> left_matches (pivot_on c) (race_counts ''Hispanic or Latino'' T),
           c5 \<leftarrow> left_matches (pivot_on c) (race_counts ''Black or African-American'' T) ]"

definition cities_pop_clean :: "cities_pop_source_row list \<Rightarrow> cities_pop_row list" where
  "cities_pop_clean cities_pop_source_table = cities_pop_pivot (cities_pop_nonnull cities_pop_source_table)"

subsection \<open>Airports (lines 284 to 289)\<close>

record airports_row =
  a_type :: "string option"
  a_name :: "string option"
  a_elevation_ft :: "int option"
  a_iso_region :: "string option"
  a_municipality :: "string option"
  a_gps_code :: "string option"
  a_lon :: "real option"
  a_lat :: "real option"

definition airports_clean :: "airports_row list \<Rightarrow> airports_row list" where
  "airports_clean airports_source_table =
     filter (\<lambda>a. IS_NOT_NULL (a_municipality a) \<and> IS_NOT_NULL (a_iso_region a) \<and>
                  IS_NOT_NULL (a_lat a) \<and> IS_NOT_NULL (a_lon a)) airports_source_table"

subsection \<open>Weather: null filter, region by proximity, aggregation (lines 305 to 333)\<close>

record weather_source_row =
  w_dt :: "date option"
  w_year :: "int option"
  w_month :: "int option"
  w_day :: "int option"
  w_avg_temperature :: "real option"
  w_city :: "string option"
  w_country :: "string option"
  w_lon :: "real option"
  w_lat :: "real option"

record weather_row =
  wc_dt :: "date option"
  wc_year :: "int option"
  wc_month :: "int option"
  wc_day :: "int option"
  wc_city :: "string option"
  wc_state :: "string option"
  wc_lat :: "real option"
  wc_lon :: "real option"
  wc_avg_temperature :: "real option"

text \<open>Steps 1 and 2 (lines 305 to 310).\<close>

definition weather_nonnull :: "weather_source_row list \<Rightarrow> weather_source_row list" where
  "weather_nonnull weather_source_table =
     remdups (filter (\<lambda>w. IS_NOT_NULL (w_avg_temperature w) \<and> IS_NOT_NULL (w_dt w) \<and>
                           IS_NOT_NULL (w_city w) \<and> IS_NOT_NULL (w_lat w) \<and> IS_NOT_NULL (w_lon w))
                weather_source_table)"

text \<open>The distinct locations (city, lat, lon) of lines 313 to 316.\<close>

definition tmp_loc_table :: "weather_source_row list \<Rightarrow> (string option \<times> real option \<times> real option) list" where
  "tmp_loc_table W = remdups (map (\<lambda>w. (w_city w, w_lat w, w_lon w)) W)"

definition DISTANCE_THRESHOLD :: real where
  "DISTANCE_THRESHOLD = 1"

text \<open>The ON clause of line 323.\<close>

definition near_airport :: "(string option \<times> real option \<times> real option) \<Rightarrow> airports_row \<Rightarrow> bool" where
  "near_airport w1 a \<longleftrightarrow>
     sql_lt (SQRT (sql_op (+)
                    (sql_op (*) (sql_op (-) (fst (snd w1)) (a_lat a)) (sql_op (-) (fst (snd w1)) (a_lat a)))
                    (sql_op (*) (sql_op (-) (snd (snd w1)) (a_lon a)) (sql_op (-) (snd (snd w1)) (a_lon a)))))
            (Some DISTANCE_THRESHOLD)
     \<and> sql_eq (fst w1) (a_municipality a)"

text \<open>The locations with their regions (city, state, lat, lon) of lines 319 to 324.\<close>

definition tmp_loc_region ::
  "(string option \<times> real option \<times> real option) list \<Rightarrow> airports_row list
     \<Rightarrow> (string option \<times> string option \<times> real option \<times> real option) list" where
  "tmp_loc_region L A =
     remdups (map (\<lambda>(w1, a). (fst w1, a_iso_region a, fst (snd w1), snd (snd w1)))
                  (inner_join near_airport L A))"

text \<open>The ON clause of line 331.\<close>

definition same_loc ::
  "weather_source_row \<Rightarrow> (string option \<times> string option \<times> real option \<times> real option) \<Rightarrow> bool" where
  "same_loc w w1 \<longleftrightarrow>
     sql_eq (w_city w) (fst w1) \<and> sql_eq (w_lat w) (fst (snd (snd w1))) \<and>
     sql_eq (w_lon w) (snd (snd (snd w1)))"

text \<open>The grouping key of line 332, and the row SELECTed for a group (lines 327 and 328).\<close>

definition weather_key ::
  "weather_source_row \<times> (string option \<times> string option \<times> real option \<times> real option) \<Rightarrow> weather_row" where
  "weather_key j =
     \<lparr> wc_dt = w_dt (fst j), wc_year = w_year (fst j), wc_month = w_month (fst j),
       wc_day = w_day (fst j), wc_city = w_city (fst j), wc_state = fst (snd (snd j)),
       wc_lat = w_lat (fst j), wc_lon = w_lon (fst j), wc_avg_temperature = None \<rparr>"

definition weather_aggregate ::
  "weather_source_row list \<Rightarrow> (string option \<times> string option \<times> real option \<times> real option) list
     \<Rightarrow> weather_row list" where
  "weather_aggregate W R =
     map (\<lambda>(k, v). k\<lparr>wc_avg_temperature := v\<rparr>)
         (group_by weather_key (\<lambda>g. AVG (map (\<lambda>j. w_avg_temperature (fst j)) g))
                   (inner_join same_loc W R))"

text \<open>
  The preprocessed weather table, from the two source tables: at line 322 the name
  \<open>airports_source_table\<close> is bound to the cleaned airports (line 290).
\<close>

definition weather_clean :: "weather_source_row list \<Rightarrow> airports_row list \<Rightarrow> weather_row list" where
  "weather_clean weather_source_table airports_source_table =
     (let W = weather_nonnull weather_source_table
      in weather_aggregate W (tmp_loc_region (tmp_loc_table W) (airports_clean airports_source_table)))"

section \<open>build_data_model\<close>

subsection \<open>dim_time (lines 437 to 450)\<close>

record time_row =
  t_dt :: "date option"
  t_year :: "int option"
  t_month :: "int option"
  t_day :: "int option"
  t_dow :: "int option"
  t_week :: "int option"

definition time_select :: "date option \<Rightarrow> time_row" where
  "time_select d =
     \<lparr> t_dt = d, t_year = YEAR d, t_month = MONTH d, t_day = DAY d,
       t_dow = DAYOFWEEK d, t_week = WEEKOFYEAR d \<rparr>"

text \<open>\<open>A UNION B\<close>: the distinct rows of both.\<close>

definition UNION :: "'a list \<Rightarrow> 'a list \<Rightarrow> 'a list" where
  "UNION A B = remdups (A @ B)"

definition dim_time_table :: "i94_row list \<Rightarrow> weather_row list \<Rightarrow> time_row list" where
  "dim_time_table i94_clean_source_table weather_clean_source_table =
     UNION
       (UNION
          (remdups (map (\<lambda>i1. time_select (i_arr_date i1)) i94_clean_source_table))
          (remdups (map (\<lambda>i2. time_select (i_dep_date i2))
                        (filter (\<lambda>i2. IS_NOT_NULL (i_dep_date i2)) i94_clean_source_table))))
       (remdups (map (\<lambda>w. time_select (wc_dt w)) weather_clean_source_table))"

subsection \<open>dim_cities (lines 460 to 478)\<close>

record dim_cities_row = cities_pop_row +
  number_of_airports :: "int option"



subsection \<open>fact_i94_history (lines 494 to 510)\<close>

record fact_base_row =
  f_id :: "int option"
  f_country_of_residence :: "string option"
  f_country_of_citizenship :: "string option"
  f_city_of_entry :: "string option"
  f_state_of_entry_code :: "string option"
  f_border_cross_method :: "string option"
  f_type_of_visa :: "string option"
  f_class_of_admission :: "string option"
  f_gender :: "string option"
  f_age :: "int option"
  f_arr_date :: "date option"
  f_dep_date :: "date option"
  f_year :: "int option"
  f_month :: "int option"
  f_day :: "int option"

record fact_row = fact_base_row +
  f_avg_temperature :: "real option"

text \<open>Steps 1 and 2 (lines 494 to 501).\<close>

definition fact_select :: "i94_row \<Rightarrow> fact_base_row" where
  "fact_select i =
     \<lparr> f_id = i_id i, f_country_of_residence = i_country_of_residence i,
       f_country_of_citizenship = i_country_of_citizenship i,
       f_city_of_entry = i_city_of_entry i, f_state_of_entry_code = i_state_of_entry_code i,
       f_border_cross_method = i_border_cross_method i, f_type_of_visa = i_type_of_visa i,
       f_class_of_admission = i_class_of_admission i, f_gender = i_gender i, f_age = i_age i,
       f_arr_date = i_arr_date i, f_dep_date = i_dep_date i,
       f_year = YEAR (i_arr_date i), f_month = MONTH (i_arr_date i), f_day = DAY (i_arr_date i) \<rparr>"

text \<open>The ON clause of lines 508 and 509.\<close>

definition weather_on :: "fact_base_row \<Rightarrow> weather_row \<Rightarrow> bool" where
  "weather_on f w \<longleftrightarrow>
     sql_eq (YEAR (f_arr_date f)) (YEAR (wc_dt w)) \<and> sql_eq (MONTH (f_arr_date f)) (MONTH (wc_dt w)) \<and>
     sql_eq (f_city_of_entry f) (wc_city w) \<and> sql_eq (f_state_of_entry_code f) (wc_state w)"

text \<open>Step 3 (lines 504 to 510).\<close>

definition fact_i94_history_table :: "i94_row list \<Rightarrow> weather_row list \<Rightarrow> fact_row list" where
  "fact_i94_history_table i94_clean_source_table weather_clean_source_table =
     map (\<lambda>(f, w). fact_base_row.extend f (fact_row.fields (col wc_avg_temperature w)))
         (left_join weather_on (map fact_select i94_clean_source_table) weather_clean_source_table)"

subsection \<open>check_model_quality (lines 364 to 402)\<close>

text \<open>The ON clause of line 394.\<close>

definition time_on :: "fact_row \<Rightarrow> time_row \<Rightarrow> bool" where
  "time_on f t \<longleftrightarrow>
     sql_eq (YEAR (f_arr_date f)) (YEAR (t_dt t)) \<and> sql_eq (MONTH (f_arr_date f)) (MONTH (t_dt t))"

definition check_query :: "fact_row list \<Rightarrow> time_row list \<Rightarrow> (date option \<times> date option) list" where
  "check_query fact_i94_history dim_time =
     map (\<lambda>(f, t). (f_arr_date f, col t_dt t))
         (filter (\<lambda>(f, t). IS_NULL (col t_dt t)) (left_join time_on fact_i94_history dim_time))"

definition check_model_quality :: "fact_row list \<Rightarrow> dim_cities_row list \<Rightarrow> time_row list \<Rightarrow> bool" where
  "check_model_quality fact_i94_history dim_cities dim_time =
     (if length fact_i94_history = 0 \<or> length dim_cities = 0 \<or> length dim_time = 0
      then False
      else if length (check_query fact_i94_history dim_time) > 0 then False
      else True)"

subsection \<open>The stage and the data lake\<close>





section \<open>Example tables\<close>







definition ex_i94 :: i94_row where
  "ex_i94 = \<lparr> i_id = Some 7, i_country_of_residence = Some ''FRANCE'',
     i_country_of_citizenship = Some ''FRANCE'', i_city_of_entry = Some ''CHICAGO'',
     i_state_of_entry_code = Some ''IL'', i_state_of_entry_full = Some ''ILLINOIS'',
     i_border_cross_method = Some ''Air'', i_type_of_visa = Some ''Pleasure'',
     i_class_of_admission = Some ''WT'', i_gender = Some ''F'', i_age = Some 30,
     i_arr_date = Some 16896, i_dep_date = None,
     i_year = Some 2016, i_month = Some 4, i_day = Some 5 \<rparr>"

definition ex_i94_late :: i94_row where
  "ex_i94_late = ex_i94\<lparr> i_dep_date := Some 16861 \<rparr>"

definition ex_i94_twin :: i94_row where
  "ex_i94_twin = ex_i94\<lparr> i_gender := Some ''M'' \<rparr>"

definition ex_i94_source :: "i94_row list" where
  "ex_i94_source = [ex_i94, ex_i94_late, ex_i94, ex_i94_twin]"

definition ex_fact :: fact_row where
  "ex_fact = \<lparr> f_id = Some 7, f_country_of_residence = Some ''FRANCE'',
     f_country_of_citizenship = Some ''FRANCE'', f_city_of_entry = Some ''CHICAGO'',
     f_state_of_entry_code = Some ''IL'', f_border_cross_method = Some ''Air'',
     f_type_of_visa = Some ''Pleasure'', f_class_of_admission = Some ''WT'',
     f_gender = Some ''F'', f_age = Some 30, f_arr_date = Some 16896, f_dep_date = None,
     f_year = Some 2016, f_month = Some 4, f_day = Some 5, f_avg_temperature = None \<rparr>"

definition ex_time_apr :: time_row where
  "ex_time_apr = \<lparr> t_dt = Some 16896, t_year = Some 2016, t_month = Some 4, t_day = Some 5,
     t_dow = Some 3, t_week = Some 14 \<rparr>"

definition ex_time_mar :: time_row where
  "ex_time_mar = \<lparr> t_dt = Some 16861, t_year = Some 2016, t_month = Some 3, t_day = Some 1,
     t_dow = Some 3, t_week = Some 9 \<rparr>"

definition ex_city :: cities_pop_row where
  "ex_city = \<lparr> p_city = Some ''CHICAGO'', p_state = Some ''ILLINOIS'', p_state_code = Some ''IL'',
     p_median_age = Some 34, p_male_population = Some 1300000, p_female_population = Some 1400000,
     p_total_population = Some 2700000, p_number_of_veterans = Some 70000,
     p_foreign_born = Some 570000, p_avg_household_size = Some 2.5,
     p_american_indian_and_alaska_native = None, p_asian = Some 500, p_white = Some 1000,
     p_hispanic_or_latino = None, p_black_or_african_american = None \<rparr>"

definition ex_dim_city :: dim_cities_row where
  "ex_dim_city = cities_pop_row.extend ex_city (dim_cities_row.fields None)"



definition ex_w1 :: weather_source_row where
  "ex_w1 = \<lparr> w_dt = Some 16892, w_year = Some 2016, w_month = Some 4, w_day = Some 1,
     w_avg_temperature = Some 10, w_city = Some ''CHICAGO'', w_country = Some ''UNITED STATES'',
     w_lon = Some (- 87), w_lat = Some 41 \<rparr>"

definition ex_w2 :: weather_source_row where
  "ex_w2 = ex_w1\<lparr> w_dt := Some 16896, w_day := Some 5, w_avg_temperature := Some 12 \<rparr>"

definition ex_airport_near :: airports_row where
  "ex_airport_near = \<lparr> a_type = Some ''large_airport'', a_name = Some ''Midway'',
     a_elevation_ft = Some 620, a_iso_region = Some ''IL'', a_municipality = Some ''CHICAGO'',
     a_gps_code = Some ''KMDW'', a_lon = Some (- 87), a_lat = Some 41.5 \<rparr>"

definition ex_airport_far :: airports_row where
  "ex_airport_far = ex_airport_near\<lparr> a_name := Some ''Northfield'', a_iso_region := Some ''WI'',
     a_gps_code := Some ''KNFD'', a_lat := Some 43 \<rparr>"

definition ex_wc1 :: weather_row where
  "ex_wc1 = \<lparr> wc_dt = Some 16892, wc_year = Some 2016, wc_month = Some 4, wc_day = Some 1,
     wc_city = Some ''CHICAGO'', wc_state = Some ''IL'', wc_lat = Some 41, wc_lon = Some (- 87),
     wc_avg_temperature = Some 10 \<rparr>"

definition ex_wc2 :: weather_row where
  "ex_wc2 = ex_wc1\<lparr> wc_dt := Some 16896, wc_day := Some 5, wc_avg_temperature := Some 12 \<rparr>"


definition ex_w_lone :: weather_source_row where
  "ex_w_lone = ex_w1\<lparr> w_city := Some ''SPRINGFIELD'' \<rparr>"


definition ex_pop_asian :: cities_pop_source_row where
  "ex_pop_asian = \<lparr> c_city = Some ''CHICAGO'', c_state = Some ''ILLINOIS'', c_median_age = Some 34,
     c_male_population = Some 1300000, c_female_population = Some 1400000,
     c_total_population = Some 2700000, c_number_of_veterans = Some 70000,
     c_foreign_born = Some 570000, c_avg_household_size = Some 2.5, c_state_code = Some ''IL'',
     c_race = Some ''Asian'', c_count = Some 500 \<rparr>"

definition ex_pop_white :: cities_pop_source_row where
  "ex_pop_white = ex_pop_asian\<lparr> c_race := Some ''White'', c_count := Some 1000 \<rparr>"

definition ex_pop_white_other :: cities_pop_source_row where
  "ex_pop_white_other = ex_pop_white\<lparr> c_total_population := Some 2700001 \<rparr>"

definition ex_city_other :: cities_pop_row where
  "ex_city_other = ex_city\<lparr> p_total_population := Some 2700001 \<rparr>"

section \<open>Properties of the relational engine\<close>

lemma set_inner_join: "set (inner_join c A B) = {(a, b). a \<in> set A \<and> b \<in> set B \<and> c a b}"
  by (auto simp: inner_join_def)

lemma civil_16896: "civil_from_days 16896 = (2016, 4, 5)"
  by code_simp


section \<open>The conformed travel events\<close>




section \<open>The cleaned travel events\<close>

lemma i94_keep_iff:
  "i94_keep r \<longleftrightarrow>
     i_id r \<noteq> None \<and> i_state_of_entry_code r \<noteq> None \<and> i_city_of_entry r \<noteq> None \<and>
     i_arr_date r \<noteq> None \<and>
     (i_dep_date r = None \<or> (\<exists>a d. i_arr_date r = Some a \<and> i_dep_date r = Some d \<and> a \<le> d))"
  by (auto simp: i94_keep_def IS_NULL_def IS_NOT_NULL_def sql_ge_def split: option.splits)

lemma set_i94_clean: "set (i94_clean T) = {r \<in> set T. i94_keep r}"
  by (auto simp: i94_clean_def)

lemma ex_clean: "i94_clean ex_i94_source = [ex_i94, ex_i94_twin]"
  by (simp add: i94_clean_def ex_i94_source_def i94_keep_def IS_NULL_def IS_NOT_NULL_def sql_ge_def
      ex_i94_late_def ex_i94_twin_def ex_i94_def)

text \<open>
  C6. Every row of the cleaned travel events has a non-NULL id, state of entry, city of
  entry and arrival date, and its departure date is NULL or not before its arrival date;
  the table holds no row twice; and two rows of it can share their id (here two rows
  that differ in the gender column only).
\<close>

theorem cleaned_fact_rows:
  "(\<forall>r \<in> set (i94_clean i94_source_table).
      i_id r \<noteq> None \<and> i_state_of_entry_code r \<noteq> None \<and> i_city_of_entry r \<noteq> None \<and>
      i_arr_date r \<noteq> None \<and>
      (i_dep_date r = None \<or> (\<exists>a d. i_arr_date r = Some a \<and> i_dep_date r = Some d \<and> a \<le> d)))
   \<and> distinct (i94_clean i94_source_table)
   \<and> (\<exists>T r1 r2. r1 \<in> set (i94_clean T) \<and> r2 \<in> set (i94_clean T) \<and> r1 \<noteq> r2 \<and> i_id r1 = i_id r2)"
proof (intro conjI)
  show "\<forall>r \<in> set (i94_clean i94_source_table).
      i_id r \<noteq> None \<and> i_state_of_entry_code r \<noteq> None \<and> i_city_of_entry r \<noteq> None \<and>
      i_arr_date r \<noteq> None \<and>
      (i_dep_date r = None \<or> (\<exists>a d. i_arr_date r = Some a \<and> i_dep_date r = Some d \<and> a \<le> d))"
    using i94_keep_iff by (simp add: set_i94_clean)
  show "distinct (i94_clean i94_source_table)"
    by (simp add: i94_clean_def)
  have "ex_i94 \<noteq> ex_i94_twin" "i_id ex_i94 = i_id ex_i94_twin"
    by (simp_all add: ex_i94_twin_def ex_i94_def)
  moreover have "ex_i94 \<in> set (i94_clean ex_i94_source)" "ex_i94_twin \<in> set (i94_clean ex_i94_source)"
    by (simp_all add: ex_clean)
  ultimately show "\<exists>T r1 r2. r1 \<in> set (i94_clean T) \<and> r2 \<in> set (i94_clean T) \<and> r1 \<noteq> r2 \<and> i_id r1 = i_id r2"
    by blast
qed

theorem cleaned_fact_rows_witness:
  "ex_i94 \<in> set (i94_clean ex_i94_source) \<and> ex_i94_late \<notin> set (i94_clean ex_i94_source) \<and>
   i_id ex_i94 \<noteq> None \<and> i_state_of_entry_code ex_i94 \<noteq> None \<and> i_city_of_entry ex_i94 \<noteq> None \<and>
   i_arr_date ex_i94 \<noteq> None \<and> distinct (i94_clean ex_i94_source)"
proof -
  have h: "ex_i94 \<in> set (i94_clean ex_i94_source)"
    by (simp add: ex_clean)
  have l: "ex_i94_late \<notin> set (i94_clean ex_i94_source)"
    by (simp add: ex_clean ex_i94_late_def ex_i94_twin_def ex_i94_def)
  note t = cleaned_fact_rows [of ex_i94_source]
  from t have "\<forall>r \<in> set (i94_clean ex_i94_source).
      i_id r \<noteq> None \<and> i_state_of_entry_code r \<noteq> None \<and> i_city_of_entry r \<noteq> None \<and> i_arr_date r \<noteq> None"
    by blast
  with h have "i_id ex_i94 \<noteq> None \<and> i_state_of_entry_code ex_i94 \<noteq> None \<and> i_city_of_entry ex_i94 \<noteq> None \<and>
      i_arr_date ex_i94 \<noteq> None"
    by blast
  moreover from t have "distinct (i94_clean ex_i94_source)" by blast
  ultimately show ?thesis using h l by blast
qed

section \<open>The quality gate\<close>

lemma civil_16861: "civil_from_days 16861 = (2016, 3, 1)"
  by code_simp


lemma iso_week_16861: "iso_week 16861 = 9"
  by code_simp


lemma time_select_16861: "time_select (Some 16861) = ex_time_mar"
  by (simp add: time_select_def ex_time_mar_def YEAR_def MONTH_def DAY_def DAYOFWEEK_def WEEKOFYEAR_def
      civil_16861 iso_week_16861)

lemma left_matches_alt:
  "left_matches c B = (if filter c B = [] then [None] else map Some (filter c B))"
  by (simp add: left_matches_def split: list.splits)

lemma in_left_matches:
  "ob \<in> set (left_matches c B) \<longleftrightarrow>
     (case ob of None \<Rightarrow> \<forall>b \<in> set B. \<not> c b | Some b \<Rightarrow> b \<in> set B \<and> c b)"
  by (cases ob) (auto simp: left_matches_alt filter_empty_conv)

lemma in_left_join:
  "(a, ob) \<in> set (left_join c A B) \<longleftrightarrow>
     a \<in> set A \<and> (case ob of None \<Rightarrow> \<forall>b \<in> set B. \<not> c a b | Some b \<Rightarrow> b \<in> set B \<and> c a b)"
proof -
  have "(a, ob) \<in> set (left_join c A B) \<longleftrightarrow> a \<in> set A \<and> ob \<in> set (left_matches (c a) B)"
    by (auto simp: left_join_def)
  then show ?thesis
    by (simp add: in_left_matches)
qed




lemma time_on_iff:
  "time_on f t \<longleftrightarrow>
     f_arr_date f \<noteq> None \<and> YEAR (f_arr_date f) = YEAR (t_dt t) \<and> MONTH (f_arr_date f) = MONTH (t_dt t)"
  by (auto simp: time_on_def sql_eq_def YEAR_def MONTH_def split: option.splits)

lemma time_on_dt: "time_on f t \<Longrightarrow> t_dt t \<noteq> None"
  by (auto simp: time_on_def sql_eq_def YEAR_def split: option.splits)

lemma check_query_empty:
  "check_query F T = [] \<longleftrightarrow> (\<forall>f \<in> set F. \<exists>t \<in> set T. time_on f t)"
proof
  assume e: "check_query F T = []"
  show "\<forall>f \<in> set F. \<exists>t \<in> set T. time_on f t"
  proof (rule ballI, rule ccontr)
    fix f assume f: "f \<in> set F" and n: "\<not> (\<exists>t \<in> set T. time_on f t)"
    then have "(f, None) \<in> set (left_join time_on F T)"
      by (simp add: in_left_join)
    then have "(f, None) \<in> set (filter (\<lambda>(f, t). IS_NULL (col t_dt t)) (left_join time_on F T))"
      by (simp add: IS_NULL_def col_def)
    with e show False
      by (simp add: check_query_def)
  qed
next
  assume a: "\<forall>f \<in> set F. \<exists>t \<in> set T. time_on f t"
  have "\<not> IS_NULL (col t_dt t)" if "(f, t) \<in> set (left_join time_on F T)" for f t
  proof (cases t)
    case None
    with that a show ?thesis by (auto simp: in_left_join)
  next
    case (Some r)
    with that have "time_on f r" by (simp add: in_left_join)
    with Some show ?thesis by (simp add: IS_NULL_def col_def time_on_dt)
  qed
  then show "check_query F T = []"
    by (auto simp: check_query_def filter_empty_conv)
qed

lemma gate_iff:
  "check_model_quality F C T \<longleftrightarrow>
     F \<noteq> [] \<and> C \<noteq> [] \<and> T \<noteq> [] \<and> (\<forall>f \<in> set F. \<exists>t \<in> set T. time_on f t)"
  using check_query_empty [of F T] by (simp add: check_model_quality_def)


text \<open>
  C4. The quality gate passes exactly when none of the three tables is empty and every
  fact row has a non-NULL arrival date whose year and month are the year and month of
  the date of some dim_time row; in every other case it returns failure.
\<close>

theorem check_model_quality_iff:
  "check_model_quality fact_i94_history dim_cities dim_time \<longleftrightarrow>
     fact_i94_history \<noteq> [] \<and> dim_cities \<noteq> [] \<and> dim_time \<noteq> [] \<and>
     (\<forall>f \<in> set fact_i94_history. \<exists>t \<in> set dim_time.
        f_arr_date f \<noteq> None \<and> YEAR (f_arr_date f) = YEAR (t_dt t) \<and>
        MONTH (f_arr_date f) = MONTH (t_dt t))"
  by (simp add: gate_iff time_on_iff)

theorem check_model_quality_iff_witness:
  "check_model_quality [ex_fact] [ex_dim_city] [ex_time_apr] \<and>
   \<not> check_model_quality [ex_fact] [ex_dim_city] [ex_time_mar] \<and>
   \<not> check_model_quality [] [ex_dim_city] [ex_time_apr] \<and>
   \<not> check_model_quality [ex_fact] [] [ex_time_apr] \<and>
   \<not> check_model_quality [ex_fact] [ex_dim_city] []"
proof (intro conjI)
  have "f_arr_date ex_fact \<noteq> None \<and> YEAR (f_arr_date ex_fact) = YEAR (t_dt ex_time_apr) \<and>
      MONTH (f_arr_date ex_fact) = MONTH (t_dt ex_time_apr)"
    by (simp add: ex_fact_def ex_time_apr_def)
  then show "check_model_quality [ex_fact] [ex_dim_city] [ex_time_apr]"
    using check_model_quality_iff [of "[ex_fact]" "[ex_dim_city]" "[ex_time_apr]"] by simp
  have "MONTH (f_arr_date ex_fact) \<noteq> MONTH (t_dt ex_time_mar)"
    by (simp add: ex_fact_def ex_time_mar_def MONTH_def civil_16896 civil_16861)
  then show "\<not> check_model_quality [ex_fact] [ex_dim_city] [ex_time_mar]"
    using check_model_quality_iff [of "[ex_fact]" "[ex_dim_city]" "[ex_time_mar]"] by simp
  show "\<not> check_model_quality [] [ex_dim_city] [ex_time_apr]"
    using check_model_quality_iff [of "[]" "[ex_dim_city]" "[ex_time_apr]"] by simp
  show "\<not> check_model_quality [ex_fact] [] [ex_time_apr]"
    using check_model_quality_iff [of "[ex_fact]" "[]" "[ex_time_apr]"] by simp
  show "\<not> check_model_quality [ex_fact] [ex_dim_city] []"
    using check_model_quality_iff [of "[ex_fact]" "[ex_dim_city]" "[]"] by simp
qed

section \<open>The write of the analytical tables\<close>



section \<open>The preprocessed weather\<close>

lemma ex_near: "near_airport (Some ''CHICAGO'', Some 41, Some (- 87)) ex_airport_near"
  by (simp add: near_airport_def ex_airport_near_def sql_lt_def sql_eq_def sql_op_def SQRT_def
      DISTANCE_THRESHOLD_def)

lemma ex_far: "\<not> near_airport (Some ''CHICAGO'', Some 41, Some (- 87)) ex_airport_far"
  by (simp add: near_airport_def ex_airport_far_def ex_airport_near_def sql_lt_def sql_eq_def
      sql_op_def SQRT_def DISTANCE_THRESHOLD_def)

lemma ex_airports_nonnull:
  "IS_NOT_NULL (a_municipality ex_airport_near) \<and> IS_NOT_NULL (a_iso_region ex_airport_near) \<and>
   IS_NOT_NULL (a_lat ex_airport_near) \<and> IS_NOT_NULL (a_lon ex_airport_near) \<and>
   IS_NOT_NULL (a_municipality ex_airport_far) \<and> IS_NOT_NULL (a_iso_region ex_airport_far) \<and>
   IS_NOT_NULL (a_lat ex_airport_far) \<and> IS_NOT_NULL (a_lon ex_airport_far)"
  by (simp add: IS_NOT_NULL_def ex_airport_far_def ex_airport_near_def)

lemma ex_airports_clean: "airports_clean [ex_airport_near, ex_airport_far] = [ex_airport_near, ex_airport_far]"
  by (simp add: airports_clean_def ex_airports_nonnull)

lemma ex_weather_nonnull: "weather_nonnull [ex_w1, ex_w2] = [ex_w1, ex_w2]"
  by (simp add: weather_nonnull_def IS_NOT_NULL_def ex_w1_def ex_w2_def)

lemma ex_tmp_loc: "tmp_loc_table [ex_w1, ex_w2] = [(Some ''CHICAGO'', Some 41, Some (- 87))]"
  by (simp add: tmp_loc_table_def ex_w1_def ex_w2_def)

lemma ex_tmp_loc_region:
  "tmp_loc_region [(Some ''CHICAGO'', Some 41, Some (- 87))] [ex_airport_near, ex_airport_far] =
     [(Some ''CHICAGO'', Some ''IL'', Some 41, Some (- 87))]"
  by (simp add: tmp_loc_region_def inner_join_def ex_near ex_far) (simp add: ex_airport_near_def)

lemma ex_weather_aggregate:
  "weather_aggregate [ex_w1, ex_w2] [(Some ''CHICAGO'', Some ''IL'', Some 41, Some (- 87))] = [ex_wc1, ex_wc2]"
  by (simp add: weather_aggregate_def group_by_def inner_join_def same_loc_def sql_eq_def weather_key_def
      AVG_def ex_w1_def ex_w2_def ex_wc1_def ex_wc2_def)

lemma ex_weather_clean: "weather_clean [ex_w1, ex_w2] [ex_airport_near, ex_airport_far] = [ex_wc1, ex_wc2]"
  by (simp add: weather_clean_def ex_weather_nonnull ex_tmp_loc ex_airports_clean ex_tmp_loc_region
      ex_weather_aggregate)


lemma set_weather_nonnull:
  "set (weather_nonnull ws) =
     {w \<in> set ws. w_avg_temperature w \<noteq> None \<and> w_dt w \<noteq> None \<and> w_city w \<noteq> None \<and>
                  w_lat w \<noteq> None \<and> w_lon w \<noteq> None}"
  by (auto simp: weather_nonnull_def IS_NOT_NULL_def)


lemma set_tmp_loc_table: "set (tmp_loc_table W) = (\<lambda>w. (w_city w, w_lat w, w_lon w)) ` set W"
  by (simp add: tmp_loc_table_def)

lemma in_tmp_loc_region:
  "(c, s, la, lo) \<in> set (tmp_loc_region L A) \<longleftrightarrow>
     (c, la, lo) \<in> set L \<and> (\<exists>a \<in> set A. near_airport (c, la, lo) a \<and> s = a_iso_region a)"
proof
  assume "(c, s, la, lo) \<in> set (tmp_loc_region L A)"
  then show "(c, la, lo) \<in> set L \<and> (\<exists>a \<in> set A. near_airport (c, la, lo) a \<and> s = a_iso_region a)"
    by (auto simp: tmp_loc_region_def set_inner_join)
next
  assume "(c, la, lo) \<in> set L \<and> (\<exists>a \<in> set A. near_airport (c, la, lo) a \<and> s = a_iso_region a)"
  then obtain a where "(c, la, lo) \<in> set L" "a \<in> set A" "near_airport (c, la, lo) a" "s = a_iso_region a"
    by blast
  then have "((c, la, lo), a) \<in> set (inner_join near_airport L A)"
    by (simp add: set_inner_join)
  then have "(\<lambda>(w1, a). (fst w1, a_iso_region a, fst (snd w1), snd (snd w1))) ((c, la, lo), a)
      \<in> set (tmp_loc_region L A)"
    unfolding tmp_loc_region_def set_remdups set_map by (rule imageI)
  with \<open>s = a_iso_region a\<close> show "(c, s, la, lo) \<in> set (tmp_loc_region L A)"
    by simp
qed

lemma same_loc_iff:
  "same_loc w (c, s, la, lo) \<longleftrightarrow>
     w_city w \<noteq> None \<and> w_lat w \<noteq> None \<and> w_lon w \<noteq> None \<and>
     c = w_city w \<and> la = w_lat w \<and> lo = w_lon w"
  by (auto simp: same_loc_def sql_eq_def split: option.splits)

lemma in_group_by:
  "(k, v) \<in> set (group_by key agg rows) \<longleftrightarrow>
     k \<in> key ` set rows \<and> v = agg (filter (\<lambda>r. key r = k) rows)"
  by (auto simp: group_by_def)

lemma in_weather_aggregate:
  "r \<in> set (weather_aggregate W R) \<longleftrightarrow>
     (\<exists>j \<in> set (inner_join same_loc W R).
        r = (weather_key j)\<lparr>wc_avg_temperature :=
              AVG (map (\<lambda>j. w_avg_temperature (fst j))
                       (filter (\<lambda>j'. weather_key j' = weather_key j) (inner_join same_loc W R)))\<rparr>)"
  by (force simp: weather_aggregate_def group_by_def)


lemma in_weather_join:
  "(w, (c, s, la, lo)) \<in> set (inner_join same_loc (weather_nonnull ws)
       (tmp_loc_region (tmp_loc_table (weather_nonnull ws)) A)) \<longleftrightarrow>
     w \<in> set (weather_nonnull ws) \<and> c = w_city w \<and> la = w_lat w \<and> lo = w_lon w \<and>
     (\<exists>a \<in> set A. near_airport (w_city w, w_lat w, w_lon w) a \<and> s = a_iso_region a)"
  by (auto simp: set_inner_join same_loc_iff in_tmp_loc_region set_tmp_loc_table set_weather_nonnull)

lemma weather_key_simps:
  "wc_dt (weather_key (w, l)) = w_dt w" "wc_year (weather_key (w, l)) = w_year w"
  "wc_month (weather_key (w, l)) = w_month w" "wc_day (weather_key (w, l)) = w_day w"
  "wc_city (weather_key (w, l)) = w_city w" "wc_state (weather_key (w, l)) = fst (snd l)"
  "wc_lat (weather_key (w, l)) = w_lat w" "wc_lon (weather_key (w, l)) = w_lon w"
  by (simp_all add: weather_key_def)

lemma weather_clean_row:
  assumes "r \<in> set (weather_clean ws as)"
  shows "\<exists>w \<in> set (weather_nonnull ws). \<exists>a \<in> set (airports_clean as).
           near_airport (w_city w, w_lat w, w_lon w) a \<and>
           wc_dt r = w_dt w \<and> wc_year r = w_year w \<and> wc_month r = w_month w \<and> wc_day r = w_day w \<and>
           wc_city r = w_city w \<and> wc_state r = a_iso_region a \<and> wc_lat r = w_lat w \<and> wc_lon r = w_lon w"
proof -
  let ?J = "inner_join same_loc (weather_nonnull ws)
       (tmp_loc_region (tmp_loc_table (weather_nonnull ws)) (airports_clean as))"
  from assms have "\<exists>j \<in> set ?J. r = (weather_key j)\<lparr>wc_avg_temperature :=
              AVG (map (\<lambda>j. w_avg_temperature (fst j)) (filter (\<lambda>j'. weather_key j' = weather_key j) ?J))\<rparr>"
    unfolding weather_clean_def Let_def in_weather_aggregate .
  then obtain j where j: "j \<in> set ?J" and r: "\<exists>v. r = (weather_key j)\<lparr>wc_avg_temperature := v\<rparr>"
    by blast
  obtain w c s la lo where jj: "j = (w, (c, s, la, lo))"
    by (metis prod_cases4 surj_pair)
  from j [unfolded jj in_weather_join] obtain a where w: "w \<in> set (weather_nonnull ws)"
    and a: "a \<in> set (airports_clean as)" "near_airport (w_city w, w_lat w, w_lon w) a" "s = a_iso_region a"
    by blast
  from r jj have "wc_dt r = w_dt w \<and> wc_year r = w_year w \<and> wc_month r = w_month w \<and> wc_day r = w_day w \<and>
           wc_city r = w_city w \<and> wc_state r = s \<and> wc_lat r = w_lat w \<and> wc_lon r = w_lon w"
    by (auto simp: weather_key_simps)
  with w a show ?thesis by blast
qed

lemma weather_clean_has_row:
  assumes "w \<in> set (weather_nonnull ws)" and "a \<in> set (airports_clean as)"
    and "near_airport (w_city w, w_lat w, w_lon w) a"
  shows "\<exists>r \<in> set (weather_clean ws as).
           wc_dt r = w_dt w \<and> wc_year r = w_year w \<and> wc_month r = w_month w \<and> wc_day r = w_day w \<and>
           wc_city r = w_city w \<and> wc_state r = a_iso_region a \<and> wc_lat r = w_lat w \<and> wc_lon r = w_lon w"
proof -
  let ?J = "inner_join same_loc (weather_nonnull ws)
       (tmp_loc_region (tmp_loc_table (weather_nonnull ws)) (airports_clean as))"
  let ?j = "(w, (w_city w, a_iso_region a, w_lat w, w_lon w))"
  let ?r = "(weather_key ?j)\<lparr>wc_avg_temperature :=
              AVG (map (\<lambda>j. w_avg_temperature (fst j)) (filter (\<lambda>j'. weather_key j' = weather_key ?j) ?J))\<rparr>"
  from assms have "?j \<in> set ?J"
    unfolding in_weather_join by blast
  then have "?r \<in> set (weather_clean ws as)"
    unfolding weather_clean_def Let_def in_weather_aggregate by blast
  moreover have "wc_dt ?r = w_dt w \<and> wc_year ?r = w_year w \<and> wc_month ?r = w_month w \<and> wc_day ?r = w_day w \<and>
           wc_city ?r = w_city w \<and> wc_state ?r = a_iso_region a \<and> wc_lat ?r = w_lat w \<and> wc_lon ?r = w_lon w"
    by (simp add: weather_key_simps)
  ultimately show ?thesis by blast
qed


lemma near_airport_iff:
  "near_airport (c, la, lo) a \<longleftrightarrow>
     (\<exists>m x y ax ay. c = Some m \<and> a_municipality a = Some m \<and> la = Some x \<and> lo = Some y \<and>
        a_lat a = Some ax \<and> a_lon a = Some ay \<and>
        sqrt ((x - ax) * (x - ax) + (y - ay) * (y - ay)) < 1)"
  by (auto simp: near_airport_def sql_lt_def sql_eq_def sql_op_def SQRT_def DISTANCE_THRESHOLD_def
      split: option.splits)

text \<open>
  C8. An observation of the null-filtered weather table has a row in the preprocessed
  weather table exactly when a retained airport of the same municipality lies at a
  Euclidean degree distance below 1 from its (lat, lon); it then gets a row for the
  region of every such airport, and every row at its location carries the region of
  such an airport. So an observation with no such airport is dropped, and an airport 2
  degrees away gives no region.
\<close>

theorem weather_survives_iff_near_airport:
  assumes "w \<in> set (weather_nonnull weather_source_table)"
  shows "((\<exists>r \<in> set (weather_clean weather_source_table airports_source_table).
             wc_dt r = w_dt w \<and> wc_year r = w_year w \<and> wc_month r = w_month w \<and>
             wc_day r = w_day w \<and> wc_city r = w_city w \<and> wc_lat r = w_lat w \<and> wc_lon r = w_lon w)
          \<longleftrightarrow> (\<exists>a \<in> set (airports_clean airports_source_table).
                 near_airport (w_city w, w_lat w, w_lon w) a))
     \<and> (\<forall>a \<in> set (airports_clean airports_source_table).
           near_airport (w_city w, w_lat w, w_lon w) a \<longrightarrow>
           (\<exists>r \<in> set (weather_clean weather_source_table airports_source_table).
              wc_dt r = w_dt w \<and> wc_city r = w_city w \<and> wc_lat r = w_lat w \<and> wc_lon r = w_lon w \<and>
              wc_state r = a_iso_region a))
     \<and> (\<forall>r \<in> set (weather_clean weather_source_table airports_source_table).
           wc_city r = w_city w \<and> wc_lat r = w_lat w \<and> wc_lon r = w_lon w \<longrightarrow>
           (\<exists>a \<in> set (airports_clean airports_source_table).
              near_airport (w_city w, w_lat w, w_lon w) a \<and> wc_state r = a_iso_region a))
     \<and> (\<forall>a. near_airport (w_city w, w_lat w, w_lon w) a \<longleftrightarrow>
           (\<exists>m x y ax ay. w_city w = Some m \<and> a_municipality a = Some m \<and>
              w_lat w = Some x \<and> w_lon w = Some y \<and> a_lat a = Some ax \<and> a_lon a = Some ay \<and>
              sqrt ((x - ax) * (x - ax) + (y - ay) * (y - ay)) < 1))"
proof (intro conjI)
  let ?out = "weather_clean weather_source_table airports_source_table"
  let ?A = "airports_clean airports_source_table"
  have bwd: "\<exists>a \<in> set ?A. near_airport (w_city w, w_lat w, w_lon w) a \<and> wc_state r = a_iso_region a"
    if "r \<in> set ?out" and "wc_city r = w_city w" "wc_lat r = w_lat w" "wc_lon r = w_lon w" for r
  proof -
    from weather_clean_row [OF that(1)] that(2-4) show ?thesis
      by (clarsimp, blast)
  qed
  show "(\<exists>r \<in> set ?out.
             wc_dt r = w_dt w \<and> wc_year r = w_year w \<and> wc_month r = w_month w \<and>
             wc_day r = w_day w \<and> wc_city r = w_city w \<and> wc_lat r = w_lat w \<and> wc_lon r = w_lon w)
          \<longleftrightarrow> (\<exists>a \<in> set ?A. near_airport (w_city w, w_lat w, w_lon w) a)"
  proof
    assume "\<exists>r \<in> set ?out.
             wc_dt r = w_dt w \<and> wc_year r = w_year w \<and> wc_month r = w_month w \<and>
             wc_day r = w_day w \<and> wc_city r = w_city w \<and> wc_lat r = w_lat w \<and> wc_lon r = w_lon w"
    then show "\<exists>a \<in> set ?A. near_airport (w_city w, w_lat w, w_lon w) a"
      using bwd by blast
  next
    assume "\<exists>a \<in> set ?A. near_airport (w_city w, w_lat w, w_lon w) a"
    then obtain a where "a \<in> set ?A" "near_airport (w_city w, w_lat w, w_lon w) a"
      by blast
    from weather_clean_has_row [OF assms this]
    show "\<exists>r \<in> set ?out.
             wc_dt r = w_dt w \<and> wc_year r = w_year w \<and> wc_month r = w_month w \<and>
             wc_day r = w_day w \<and> wc_city r = w_city w \<and> wc_lat r = w_lat w \<and> wc_lon r = w_lon w"
      by blast
  qed
  show "\<forall>a \<in> set ?A.
           near_airport (w_city w, w_lat w, w_lon w) a \<longrightarrow>
           (\<exists>r \<in> set ?out.
              wc_dt r = w_dt w \<and> wc_city r = w_city w \<and> wc_lat r = w_lat w \<and> wc_lon r = w_lon w \<and>
              wc_state r = a_iso_region a)"
    using weather_clean_has_row [OF assms] by blast
  show "\<forall>r \<in> set ?out.
           wc_city r = w_city w \<and> wc_lat r = w_lat w \<and> wc_lon r = w_lon w \<longrightarrow>
           (\<exists>a \<in> set ?A. near_airport (w_city w, w_lat w, w_lon w) a \<and> wc_state r = a_iso_region a)"
    using bwd by blast
  show "\<forall>a. near_airport (w_city w, w_lat w, w_lon w) a \<longleftrightarrow>
           (\<exists>m x y ax ay. w_city w = Some m \<and> a_municipality a = Some m \<and>
              w_lat w = Some x \<and> w_lon w = Some y \<and> a_lat a = Some ax \<and> a_lon a = Some ay \<and>
              sqrt ((x - ax) * (x - ax) + (y - ay) * (y - ay)) < 1)"
    by (simp add: near_airport_iff)
qed


theorem weather_survives_iff_near_airport_witness:
  "(\<exists>r \<in> set (weather_clean [ex_w1, ex_w2] [ex_airport_near, ex_airport_far]).
      wc_dt r = w_dt ex_w1 \<and> wc_city r = w_city ex_w1 \<and> wc_lat r = w_lat ex_w1 \<and>
      wc_lon r = w_lon ex_w1 \<and> wc_state r = a_iso_region ex_airport_near) \<and>
   \<not> near_airport (w_city ex_w1, w_lat ex_w1, w_lon ex_w1) ex_airport_far \<and>
   ex_wc1 \<in> set (weather_clean [ex_w1, ex_w2] [ex_airport_near, ex_airport_far]) \<and>
   wc_state ex_wc1 = a_iso_region ex_airport_near \<and>
   \<not> (\<exists>r \<in> set (weather_clean [ex_w_lone] [ex_airport_near, ex_airport_far]).
      wc_dt r = w_dt ex_w_lone \<and> wc_year r = w_year ex_w_lone \<and> wc_month r = w_month ex_w_lone \<and>
      wc_day r = w_day ex_w_lone \<and> wc_city r = w_city ex_w_lone \<and> wc_lat r = w_lat ex_w_lone \<and>
      wc_lon r = w_lon ex_w_lone)"
proof -
  have loc: "(w_city ex_w1, w_lat ex_w1, w_lon ex_w1) = (Some ''CHICAGO'', Some 41, Some (- 87))"
    by (simp add: ex_w1_def)
  have w: "ex_w1 \<in> set (weather_nonnull [ex_w1, ex_w2])"
    by (simp add: ex_weather_nonnull)
  have n: "near_airport (w_city ex_w1, w_lat ex_w1, w_lon ex_w1) ex_airport_near"
    and f: "\<not> near_airport (w_city ex_w1, w_lat ex_w1, w_lon ex_w1) ex_airport_far"
    by (simp_all only: loc ex_near ex_far not_False_eq_True)
  have m: "ex_wc1 \<in> set (weather_clean [ex_w1, ex_w2] [ex_airport_near, ex_airport_far])"
    by (simp add: ex_weather_clean)
  have k: "wc_city ex_wc1 = w_city ex_w1 \<and> wc_lat ex_wc1 = w_lat ex_w1 \<and> wc_lon ex_wc1 = w_lon ex_w1"
    by (simp add: ex_wc1_def ex_w1_def)
  note t = weather_survives_iff_near_airport [OF w, of "[ex_airport_near, ex_airport_far]"]
  from t n have 1: "\<exists>r \<in> set (weather_clean [ex_w1, ex_w2] [ex_airport_near, ex_airport_far]).
      wc_dt r = w_dt ex_w1 \<and> wc_city r = w_city ex_w1 \<and> wc_lat r = w_lat ex_w1 \<and>
      wc_lon r = w_lon ex_w1 \<and> wc_state r = a_iso_region ex_airport_near"
    by (simp add: ex_airports_clean)
  from t m k have "\<exists>a \<in> set (airports_clean [ex_airport_near, ex_airport_far]).
      near_airport (w_city ex_w1, w_lat ex_w1, w_lon ex_w1) a \<and> wc_state ex_wc1 = a_iso_region a"
    by blast
  with f have 2: "wc_state ex_wc1 = a_iso_region ex_airport_near"
    by (auto simp: ex_airports_clean)
  have w': "ex_w_lone \<in> set (weather_nonnull [ex_w_lone])"
    by (simp add: set_weather_nonnull ex_w_lone_def ex_w1_def)
  have "\<not> near_airport (w_city ex_w_lone, w_lat ex_w_lone, w_lon ex_w_lone) ex_airport_near"
    and "\<not> near_airport (w_city ex_w_lone, w_lat ex_w_lone, w_lon ex_w_lone) ex_airport_far"
    by (simp_all add: near_airport_iff ex_w_lone_def ex_w1_def ex_airport_near_def ex_airport_far_def)
  then have "\<not> (\<exists>a \<in> set (airports_clean [ex_airport_near, ex_airport_far]).
      near_airport (w_city ex_w_lone, w_lat ex_w_lone, w_lon ex_w_lone) a)"
    by (simp add: ex_airports_clean)
  with weather_survives_iff_near_airport [OF w', of "[ex_airport_near, ex_airport_far]"]
  have 3: "\<not> (\<exists>r \<in> set (weather_clean [ex_w_lone] [ex_airport_near, ex_airport_far]).
      wc_dt r = w_dt ex_w_lone \<and> wc_year r = w_year ex_w_lone \<and> wc_month r = w_month ex_w_lone \<and>
      wc_day r = w_day ex_w_lone \<and> wc_city r = w_city ex_w_lone \<and> wc_lat r = w_lat ex_w_lone \<and>
      wc_lon r = w_lon ex_w_lone)"
    by blast
  from 1 f m 2 3 show ?thesis by blast
qed

section \<open>Re-ordering the weather source\<close>














section \<open>The time dimension\<close>


lemma t_dt_time_select: "t_dt (time_select d) = d"
  by (simp add: time_select_def)

lemma set_dim_time_table:
  "set (dim_time_table I W) =
     time_select ` (i_arr_date ` set I \<union> {d \<in> i_dep_date ` set I. d \<noteq> None} \<union> wc_dt ` set W)"
  by (auto simp: dim_time_table_def UNION_def IS_NOT_NULL_def)

lemma distinct_dim_time_table: "distinct (dim_time_table I W)"
  by (simp add: dim_time_table_def UNION_def)

lemma dim_time_dates:
  "t_dt ` set (dim_time_table I W) =
     i_arr_date ` set I \<union> {d \<in> i_dep_date ` set I. d \<noteq> None} \<union> wc_dt ` set W"
  by (simp only: set_dim_time_table image_image t_dt_time_select image_ident)

lemma i94_clean_arr_date: "i \<in> set (i94_clean S) \<Longrightarrow> i_arr_date i \<noteq> None"
  by (simp add: set_i94_clean i94_keep_iff)

lemma weather_clean_dt: "r \<in> set (weather_clean ws as) \<Longrightarrow> wc_dt r \<noteq> None"
  using weather_clean_row [of r ws as] by (auto simp: set_weather_nonnull)

text \<open>
  C3. The dates of dim_time are exactly the arrival dates of the travel events, their
  non-NULL departure dates and the dates of the weather rows; no date stands in two rows
  of dim_time; every row carries the year, month, day, day of week and week of its date;
  and when the tables are the cleaned events and the preprocessed weather, no row has a
  NULL date.
\<close>

theorem dim_time_is_union_of_dates:
  "set (map t_dt (dim_time_table I W)) =
     i_arr_date ` set I \<union> {d \<in> i_dep_date ` set I. d \<noteq> None} \<union> wc_dt ` set W
   \<and> distinct (map t_dt (dim_time_table I W))
   \<and> (\<forall>t \<in> set (dim_time_table I W).
         t_year t = YEAR (t_dt t) \<and> t_month t = MONTH (t_dt t) \<and> t_day t = DAY (t_dt t) \<and>
         t_dow t = DAYOFWEEK (t_dt t) \<and> t_week t = WEEKOFYEAR (t_dt t))
   \<and> None \<notin> set (map t_dt (dim_time_table (i94_clean S) (weather_clean ws as)))"
proof (intro conjI)
  show "set (map t_dt (dim_time_table I W)) =
     i_arr_date ` set I \<union> {d \<in> i_dep_date ` set I. d \<noteq> None} \<union> wc_dt ` set W"
    by (simp only: set_map dim_time_dates)
  have "inj_on t_dt (set (dim_time_table I W))"
    unfolding set_dim_time_table by (rule inj_onI) (auto simp: t_dt_time_select)
  then show "distinct (map t_dt (dim_time_table I W))"
    by (simp add: distinct_map distinct_dim_time_table)
  show "\<forall>t \<in> set (dim_time_table I W).
         t_year t = YEAR (t_dt t) \<and> t_month t = MONTH (t_dt t) \<and> t_day t = DAY (t_dt t) \<and>
         t_dow t = DAYOFWEEK (t_dt t) \<and> t_week t = WEEKOFYEAR (t_dt t)"
    unfolding set_dim_time_table by (auto simp: time_select_def)
  show "None \<notin> set (map t_dt (dim_time_table (i94_clean S) (weather_clean ws as)))"
    unfolding set_map dim_time_dates
    using i94_clean_arr_date [of _ S] weather_clean_dt [of _ ws as] by force
qed

theorem dim_time_is_union_of_dates_witness:
  "set (map t_dt (dim_time_table [ex_i94] [ex_wc1, ex_wc2])) = {Some 16896, Some 16892} \<and>
   distinct (map t_dt (dim_time_table [ex_i94] [ex_wc1, ex_wc2])) \<and>
   i_arr_date ex_i94 = Some 16896 \<and> wc_dt ex_wc2 = Some 16896"
proof -
  note t = dim_time_is_union_of_dates [of "[ex_i94]" "[ex_wc1, ex_wc2]"]
  have a: "i_arr_date ex_i94 = Some 16896" "i_dep_date ex_i94 = None"
    by (simp_all add: ex_i94_def)
  have w: "wc_dt ex_wc1 = Some 16892" "wc_dt ex_wc2 = Some 16896"
    by (simp_all add: ex_wc1_def ex_wc2_def)
  from t have "set (map t_dt (dim_time_table [ex_i94] [ex_wc1, ex_wc2])) =
     i_arr_date ` set [ex_i94] \<union> {d \<in> i_dep_date ` set [ex_i94]. d \<noteq> None} \<union> wc_dt ` set [ex_wc1, ex_wc2]"
    by blast
  also have "\<dots> = {Some 16896, Some 16892}"
    using a w by auto
  finally have 1: "set (map t_dt (dim_time_table [ex_i94] [ex_wc1, ex_wc2])) = {Some 16896, Some 16892}" .
  from t have 2: "distinct (map t_dt (dim_time_table [ex_i94] [ex_wc1, ex_wc2]))"
    by blast
  from 1 2 a w show ?thesis by blast
qed

section \<open>The gate on tables built from the same cleaned events\<close>

lemma fact_rows:
  "f \<in> set (fact_i94_history_table I W) \<Longrightarrow> \<exists>i \<in> set I. f_arr_date f = i_arr_date i"
  by (auto simp: fact_i94_history_table_def left_join_def fact_select_def fact_base_row.defs)

lemma fact_table_empty: "fact_i94_history_table I W = [] \<longleftrightarrow> I = []"
  by (cases I) (auto simp: fact_i94_history_table_def left_join_def left_matches_alt)

lemma fact_arr_date_covered:
  assumes "f \<in> set (fact_i94_history_table (i94_clean S) W)"
  shows "f_arr_date f \<noteq> None \<and> f_arr_date f \<in> t_dt ` set (dim_time_table (i94_clean S) W)"
proof -
  from fact_rows [OF assms] obtain i where "i \<in> set (i94_clean S)" "f_arr_date f = i_arr_date i"
    by blast
  then show ?thesis
    by (auto simp: dim_time_dates i94_clean_arr_date)
qed

text \<open>
  C10. When the fact table and dim_time are built from the same cleaned travel events,
  every fact row has a non-NULL arrival date that is the date of a dim_time row, so the
  gate's coverage query finds a partner for every fact row and the gate passes exactly
  when none of the three tables is empty.
\<close>

theorem gate_fails_only_on_empty_table:
  "(\<forall>f \<in> set (fact_i94_history_table (i94_clean S) W).
       f_arr_date f \<noteq> None \<and> f_arr_date f \<in> t_dt ` set (dim_time_table (i94_clean S) W))
   \<and> check_query (fact_i94_history_table (i94_clean S) W) (dim_time_table (i94_clean S) W) = []
   \<and> (check_model_quality (fact_i94_history_table (i94_clean S) W) C (dim_time_table (i94_clean S) W)
        \<longleftrightarrow> fact_i94_history_table (i94_clean S) W \<noteq> [] \<and> C \<noteq> [] \<and>
             dim_time_table (i94_clean S) W \<noteq> [])"
proof -
  let ?F = "fact_i94_history_table (i94_clean S) W" and ?T = "dim_time_table (i94_clean S) W"
  have cov: "\<forall>f \<in> set ?F. f_arr_date f \<noteq> None \<and> f_arr_date f \<in> t_dt ` set ?T"
    using fact_arr_date_covered by blast
  have "\<exists>t \<in> set ?T. time_on f t" if "f \<in> set ?F" for f
  proof -
    from cov that have n: "f_arr_date f \<noteq> None" and "f_arr_date f \<in> t_dt ` set ?T"
      by blast+
    then obtain t where "t \<in> set ?T" "f_arr_date f = t_dt t"
      by blast
    with n have "t \<in> set ?T" "f_arr_date f = t_dt t" "f_arr_date f \<noteq> None"
      by blast+
    then show ?thesis
      by (auto simp: time_on_iff)
  qed
  then have q: "check_query ?F ?T = []"
    by (simp add: check_query_empty)
  then have "check_model_quality ?F C ?T \<longleftrightarrow> ?F \<noteq> [] \<and> C \<noteq> [] \<and> ?T \<noteq> []"
    by (simp add: check_model_quality_def)
  with cov q show ?thesis by blast
qed

theorem gate_fails_only_on_empty_table_witness:
  "check_model_quality (fact_i94_history_table (i94_clean ex_i94_source) [ex_wc1, ex_wc2]) [ex_dim_city]
     (dim_time_table (i94_clean ex_i94_source) [ex_wc1, ex_wc2]) \<and>
   \<not> check_model_quality (fact_i94_history_table (i94_clean []) [ex_wc1, ex_wc2]) [ex_dim_city]
     (dim_time_table (i94_clean []) [ex_wc1, ex_wc2])"
proof
  have "fact_i94_history_table (i94_clean ex_i94_source) [ex_wc1, ex_wc2] \<noteq> []"
    by (simp add: fact_table_empty ex_clean)
  moreover have "dim_time_table (i94_clean ex_i94_source) [ex_wc1, ex_wc2] \<noteq> []"
    by (simp add: dim_time_table_def UNION_def)
  ultimately show "check_model_quality (fact_i94_history_table (i94_clean ex_i94_source) [ex_wc1, ex_wc2])
     [ex_dim_city] (dim_time_table (i94_clean ex_i94_source) [ex_wc1, ex_wc2])"
    using gate_fails_only_on_empty_table [of ex_i94_source "[ex_wc1, ex_wc2]" "[ex_dim_city]"]
    by simp
  have "fact_i94_history_table (i94_clean []) [ex_wc1, ex_wc2] = []"
    by (simp add: fact_table_empty i94_clean_def)
  then show "\<not> check_model_quality (fact_i94_history_table (i94_clean []) [ex_wc1, ex_wc2]) [ex_dim_city]
     (dim_time_table (i94_clean []) [ex_wc1, ex_wc2])"
    using gate_fails_only_on_empty_table [of "[]" "[ex_wc1, ex_wc2]" "[ex_dim_city]"]
    by simp
qed


section \<open>The grain of the fact table\<close>












section \<open>The pivot of the demographics\<close>

lemma left_matches_Nil: "left_matches c [] = [None]"
  by (simp add: left_matches_def)

lemma ex_pop_nonnull:
  "cities_pop_nonnull [ex_pop_asian, ex_pop_white] = [ex_pop_asian, ex_pop_white]"
  "cities_pop_nonnull [ex_pop_asian, ex_pop_white_other] = [ex_pop_asian, ex_pop_white_other]"
  by (simp_all add: cities_pop_nonnull_def IS_NOT_NULL_def ex_pop_asian_def ex_pop_white_def
      ex_pop_white_other_def)

lemma ex_race_counts:
  "race_counts ''American Indian and Alaska Native'' [ex_pop_asian, ex_pop_white] = []"
  "race_counts ''Asian'' [ex_pop_asian, ex_pop_white] = [(Some ''CHICAGO'', Some ''ILLINOIS'', Some 500)]"
  "race_counts ''White'' [ex_pop_asian, ex_pop_white] = [(Some ''CHICAGO'', Some ''ILLINOIS'', Some 1000)]"
  "race_counts ''Hispanic or Latino'' [ex_pop_asian, ex_pop_white] = []"
  "race_counts ''Black or African-American'' [ex_pop_asian, ex_pop_white] = []"
  by (simp_all add: race_counts_def sql_eq_def ex_pop_asian_def ex_pop_white_def)

lemma ex_race_counts_other:
  "race_counts ''American Indian and Alaska Native'' [ex_pop_asian, ex_pop_white_other] = []"
  "race_counts ''Asian'' [ex_pop_asian, ex_pop_white_other] = [(Some ''CHICAGO'', Some ''ILLINOIS'', Some 500)]"
  "race_counts ''White'' [ex_pop_asian, ex_pop_white_other] = [(Some ''CHICAGO'', Some ''ILLINOIS'', Some 1000)]"
  "race_counts ''Hispanic or Latino'' [ex_pop_asian, ex_pop_white_other] = []"
  "race_counts ''Black or African-American'' [ex_pop_asian, ex_pop_white_other] = []"
  by (simp_all add: race_counts_def sql_eq_def ex_pop_asian_def ex_pop_white_def ex_pop_white_other_def)

lemma ex_pivot_on:
  "pivot_on ex_pop_asian (Some ''CHICAGO'', Some ''ILLINOIS'', n)"
  "pivot_on ex_pop_white (Some ''CHICAGO'', Some ''ILLINOIS'', n)"
  "pivot_on ex_pop_white_other (Some ''CHICAGO'', Some ''ILLINOIS'', n)"
  by (simp_all add: pivot_on_def sql_eq_def ex_pop_asian_def ex_pop_white_def ex_pop_white_other_def)

lemma ex_pivot_select:
  "pivot_select ex_pop_asian None (Some (Some ''CHICAGO'', Some ''ILLINOIS'', Some 500))
     (Some (Some ''CHICAGO'', Some ''ILLINOIS'', Some 1000)) None None = ex_city"
  "pivot_select ex_pop_white None (Some (Some ''CHICAGO'', Some ''ILLINOIS'', Some 500))
     (Some (Some ''CHICAGO'', Some ''ILLINOIS'', Some 1000)) None None = ex_city"
  "pivot_select ex_pop_white_other None (Some (Some ''CHICAGO'', Some ''ILLINOIS'', Some 500))
     (Some (Some ''CHICAGO'', Some ''ILLINOIS'', Some 1000)) None None = ex_city_other"
  by (simp_all add: pivot_select_def col_def ex_city_def ex_city_other_def ex_pop_asian_def
      ex_pop_white_def ex_pop_white_other_def)

lemma ex_city_differs: "ex_city \<noteq> ex_city_other"
proof
  assume "ex_city = ex_city_other"
  then have "p_total_population ex_city = p_total_population ex_city_other"
    by simp
  then show False
    by (simp add: ex_city_def ex_city_other_def)
qed

lemma ex_pivot_consistent: "cities_pop_clean [ex_pop_asian, ex_pop_white] = [ex_city]"
  by (simp add: cities_pop_clean_def ex_pop_nonnull cities_pop_pivot_def ex_race_counts
      left_matches_Nil left_matches_def ex_pivot_on ex_pivot_select)

text \<open>
  C2. A demographics source with two rows of one (city, state) pair, for the categories
  Asian and White, whose total_population differs: both rows pass the null filter, each
  meets both category subqueries, and SELECT DISTINCT keeps the two wide rows, which
  differ in total_population. The pivoted table then has two rows for the pair.
\<close>

theorem pivot_keeps_two_rows_for_one_pair:
  "cities_pop_clean [ex_pop_asian, ex_pop_white_other] = [ex_city, ex_city_other] \<and>
   p_city ex_city = p_city ex_city_other \<and> p_state ex_city = p_state ex_city_other \<and>
   p_state_code ex_city = p_state_code ex_city_other \<and> ex_city \<noteq> ex_city_other"
  by (simp add: cities_pop_clean_def ex_pop_nonnull cities_pop_pivot_def ex_race_counts_other
      left_matches_Nil left_matches_def ex_pivot_on ex_pivot_select ex_city_differs)
    (simp add: ex_city_other_def)

end
